theory Spec2Isabelle
  imports Main "HOL-Library.Multiset"
begin

section \<open>Exercise tracker: the request handlers of index.js over a document store\<close>

text \<open>
  The program is one file of route handlers over two Mongoose models, \<open>User\<close> and
  \<open>Exercise\<close>. Each handler is modelled as a function from the environment of the request,
  the store before the request and the request's parameters to the response (and the store
  after the request, where the handler writes). Every \<^verbatim>\<open>await\<close> of the source is one store
  call that either rejects (the \<^verbatim>\<open>catch\<close> branch of the handler) or returns.

  Strings are lists of characters below 256. Request fields are optional texts (form fields
  and query parameters): \<open>None\<close> is JavaScript's \<^verbatim>\<open>undefined\<close>.
\<close>

subsection \<open>JavaScript values\<close>

text \<open>A Number that is an integer or \<^verbatim>\<open>NaN\<close> (integers are exact below \<open>2^53\<close>), and
  a Date: a time value in milliseconds since the epoch, or Invalid Date.\<close>

datatype jsnumber = NaN | Num int

datatype jsdate = InvalidDate | Date int

text \<open>Truthiness of an optional text: \<^verbatim>\<open>undefined\<close> and the empty string are falsy.\<close>

definition truthy :: "string option \<Rightarrow> bool" where
  "truthy v = (case v of None \<Rightarrow> False | Some s \<Rightarrow> s \<noteq> [])"

subsection \<open>parseInt with no radix (ECMAScript)\<close>

definition isWhiteSpace :: "char \<Rightarrow> bool" where
  "isWhiteSpace c = (of_char c \<in> {9, 10, 11, 12, 13, 32, 160 :: nat})"

definition digit_of :: "char \<Rightarrow> nat option" where
  "digit_of c =
     (let n = (of_char c :: nat) in
      if 48 \<le> n \<and> n \<le> 57 then Some (n - 48)
      else if 97 \<le> n \<and> n \<le> 122 then Some (n - 87)
      else if 65 \<le> n \<and> n \<le> 90 then Some (n - 55)
      else None)"

definition is_digit :: "nat \<Rightarrow> char \<Rightarrow> bool" where
  "is_digit R c = (case digit_of c of None \<Rightarrow> False | Some d \<Rightarrow> d < R)"

definition digits_value :: "nat \<Rightarrow> string \<Rightarrow> nat" where
  "digits_value R Z =
     foldl (\<lambda>n c. case digit_of c of None \<Rightarrow> n | Some d \<Rightarrow> n * R + d) 0 Z"

text \<open>The longest prefix of radix-\<open>R\<close> digits; no digit at all gives no number.\<close>

definition parse_digits :: "nat \<Rightarrow> string \<Rightarrow> nat option" where
  "parse_digits R S =
     (let Z = takeWhile (is_digit R) S in
      if Z = [] then None else Some (digits_value R Z))"

fun strip_sign :: "string \<Rightarrow> int \<times> string" where
  "strip_sign (c # S) =
     (if c = CHR ''-'' then (- 1, S) else if c = CHR ''+'' then (1, S) else (1, c # S))"
| "strip_sign [] = (1, [])"

fun strip_prefix :: "string \<Rightarrow> nat \<times> string" where
  "strip_prefix (a # b # S) =
     (if a = CHR ''0'' \<and> (b = CHR ''x'' \<or> b = CHR ''X'') then (16, S) else (10, a # b # S))"
| "strip_prefix S = (10, S)"

definition parseInt_string :: "string \<Rightarrow> jsnumber" where
  "parseInt_string inputString =
     (let (sign, S) = strip_sign (dropWhile isWhiteSpace inputString);
          (R, S') = strip_prefix S
      in case parse_digits R S' of
           None \<Rightarrow> NaN
         | Some mathInt \<Rightarrow> Num (sign * int mathInt))"

text \<open>\<^verbatim>\<open>parseInt(undefined)\<close> parses the text \<^verbatim>\<open>"undefined"\<close>.\<close>

definition parseInt :: "string option \<Rightarrow> jsnumber" where
  "parseInt v =
     (case v of None \<Rightarrow> parseInt_string ''undefined'' | Some s \<Rightarrow> parseInt_string s)"

subsection \<open>The environment of one request\<close>

text \<open>
  What a handler reads from outside the store:
  \<^item> \<open>now\<close>: the clock, read by \<^verbatim>\<open>new Date()\<close>;
  \<^item> \<open>newId\<close>: the identifier that \<^verbatim>\<open>new User(...)\<close> or \<^verbatim>\<open>new Exercise(...)\<close> generates;
  \<^item> \<open>Date_parse\<close>: the time value of \<^verbatim>\<open>new Date(text)\<close>, \<open>None\<close> for Invalid Date
    (the accepted formats are the engine's);
  \<^item> \<open>toDateString\<close>: the rendering of a time value in the server's time zone;
  \<^item> \<open>store_fails k\<close>: the \<open>k\<close>-th store call of the request (from 0) is rejected by the
    store or the connection;
  \<^item> \<open>firstBatch\<close>: the size of the first batch of a cursor;
  \<^item> \<open>nanLimitRejected\<close>: whether the server rejects a find whose limit is \<^verbatim>\<open>NaN\<close>
    (otherwise it reads it as 0).
\<close>

type_synonym objectid = nat

record env =
  now :: int
  newId :: objectid
  Date_parse :: "string \<Rightarrow> int option"
  toDateString :: "int \<Rightarrow> string"
  store_fails :: "nat \<Rightarrow> bool"
  firstBatch :: nat
  nanLimitRejected :: bool

definition new_Date :: "env \<Rightarrow> string \<Rightarrow> jsdate" where
  "new_Date env s = (case Date_parse env s of None \<Rightarrow> InvalidDate | Some t \<Rightarrow> Date t)"

subsection \<open>Schemas, documents and the store\<close>

text \<open>
  \<^verbatim>\<open>userSchema = { username: { type: String, required: true, unique: true } }\<close> and
  \<^verbatim>\<open>exerciseSchema = { userId: String (required), description: String (required),
  duration: Number (required), date: Date (default Date.now) }\<close>.
  A stored document has passed the schema's casts, so its duration is a number and its date
  a valid date. An identifier is the 96-bit value of an ObjectId.
\<close>

record user =
  u_id :: objectid
  u_username :: string

record exercise =
  e_id :: objectid
  e_userId :: string
  e_description :: string
  e_duration :: int
  e_date :: int

record db =
  Users :: "user list"
  Exercises :: "exercise list"

text \<open>Documents as the handlers construct them, before validation.\<close>

record user_doc =
  ud_id :: objectid
  ud_username :: "string option"

record exercise_doc =
  ed_id :: objectid
  ed_userId :: string
  ed_description :: "string option"
  ed_duration :: jsnumber
  ed_date :: jsdate

datatype error = StoreError | CastError | ValidationError | DuplicateKey

text \<open>
  The cast of a text to an ObjectId (Mongoose 6, which the source's \<^verbatim>\<open>strictQuery\<close> line
  prepares to leave): 24 hexadecimal digits, or 12 characters of one byte each; any other
  text fails the cast.
\<close>

definition castObjectId :: "string \<Rightarrow> objectid option" where
  "castObjectId s =
     (if length s = 12 then
        (if list_all (\<lambda>c. (of_char c :: nat) < 128) s
         then Some (foldl (\<lambda>n c. n * 256 + of_char c) 0 s) else None)
      else if length s = 24 \<and> list_all (is_digit 16) s then Some (digits_value 16 s)
      else None)"

text \<open>\<^verbatim>\<open>User.findById(id)\<close>: the query casts \<open>id\<close>, then asks the store.\<close>

definition User_findById :: "env \<Rightarrow> nat \<Rightarrow> db \<Rightarrow> string \<Rightarrow> error + user option" where
  "User_findById env k db ident =
     (case castObjectId ident of
        None \<Rightarrow> Inl CastError
      | Some oid \<Rightarrow>
          if store_fails env k then Inl StoreError
          else Inr (find (\<lambda>u. u_id u = oid) (Users db)))"

text \<open>\<^verbatim>\<open>User.findOne({ username })\<close>: an undefined username matches no stored user, since
  every stored user has one.\<close>

definition User_findOne :: "env \<Rightarrow> nat \<Rightarrow> db \<Rightarrow> string option \<Rightarrow> error + user option" where
  "User_findOne env k db username =
     (if store_fails env k then Inl StoreError
      else case username of
             None \<Rightarrow> Inr None
           | Some n \<Rightarrow> Inr (find (\<lambda>u. u_username u = n) (Users db)))"

text \<open>\<^verbatim>\<open>User.find({}, '_id username')\<close>.\<close>

definition User_find_all :: "env \<Rightarrow> nat \<Rightarrow> db \<Rightarrow> error + user list" where
  "User_find_all env k db = (if store_fails env k then Inl StoreError else Inr (Users db))"

text \<open>
  \<^verbatim>\<open>doc.save()\<close> of a new user: validation (\<open>required\<close> rejects a missing or empty text), then
  the insert, which the store rejects on a duplicate \<open>_id\<close> or, by the unique index that
  \<^verbatim>\<open>unique: true\<close> declares, on a username already present.
\<close>

definition User_save :: "env \<Rightarrow> nat \<Rightarrow> db \<Rightarrow> user_doc \<Rightarrow> error + user \<times> db" where
  "User_save env k db doc =
     (case ud_username doc of
        None \<Rightarrow> Inl ValidationError
      | Some n \<Rightarrow>
          if n = [] then Inl ValidationError
          else if store_fails env k then Inl StoreError
          else if ud_id doc \<in> set (map u_id (Users db)) then Inl DuplicateKey
          else if n \<in> set (map u_username (Users db)) then Inl DuplicateKey
          else (let u = \<lparr>u_id = ud_id doc, u_username = n\<rparr>
                in Inr (u, db\<lparr>Users := Users db @ [u]\<rparr>)))"

text \<open>
  \<^verbatim>\<open>doc.save()\<close> of a new exercise: the schema's casts and validators (a \<^verbatim>\<open>NaN\<close> fails the
  cast to Number, an Invalid Date fails the cast to Date, \<open>required\<close> rejects a missing or
  empty text), then the insert.
\<close>

definition Exercise_validate :: "exercise_doc \<Rightarrow> error + exercise" where
  "Exercise_validate doc =
     (case (ed_description doc, ed_duration doc, ed_date doc) of
        (Some d, Num n, Date t) \<Rightarrow>
          if d = [] \<or> ed_userId doc = [] then Inl ValidationError
          else Inr \<lparr>e_id = ed_id doc, e_userId = ed_userId doc, e_description = d,
                     e_duration = n, e_date = t\<rparr>
      | _ \<Rightarrow> Inl ValidationError)"

definition Exercise_save :: "env \<Rightarrow> nat \<Rightarrow> db \<Rightarrow> exercise_doc \<Rightarrow> error + exercise \<times> db" where
  "Exercise_save env k db doc =
     (case Exercise_validate doc of
        Inl err \<Rightarrow> Inl err
      | Inr e \<Rightarrow>
          if store_fails env k then Inl StoreError
          else if e_id e \<in> set (map e_id (Exercises db)) then Inl DuplicateKey
          else Inr (e, db\<lparr>Exercises := Exercises db @ [e]\<rparr>))"

text \<open>\<^verbatim>\<open>Model.deleteMany({})\<close>: a rejected call touches nothing; otherwise the collection is
  emptied and the number of deleted documents reported.\<close>

definition User_deleteMany :: "env \<Rightarrow> nat \<Rightarrow> db \<Rightarrow> error + nat \<times> db" where
  "User_deleteMany env k db =
     (if store_fails env k then Inl StoreError
      else Inr (length (Users db), db\<lparr>Users := []\<rparr>))"

definition Exercise_deleteMany :: "env \<Rightarrow> nat \<Rightarrow> db \<Rightarrow> error + nat \<times> db" where
  "Exercise_deleteMany env k db =
     (if store_fails env k then Inl StoreError
      else Inr (length (Exercises db), db\<lparr>Exercises := []\<rparr>))"

subsection \<open>The query on exercises\<close>

text \<open>
  The filter object of the log handler: \<open>userId\<close>, and a \<open>date\<close> condition that exists only
  when \<open>from\<close> or \<open>to\<close> is truthy. \<^verbatim>\<open>Exercise.find(filter).limit(l).sort({ date: 1 })\<close> builds a
  query whose options are recorded by \<open>limit\<close> and \<open>sort\<close> and applied when the query is
  awaited: the store filters, sorts, and cuts the sorted result, in this order, whatever the
  order of the calls on the builder.
\<close>

record date_cond =
  gte :: "jsdate option"
  lte :: "jsdate option"

record exercise_filter =
  f_userId :: string
  f_date :: "date_cond option"

datatype sort_spec = DateAscending

record exercise_query =
  qy_filter :: exercise_filter
  qy_limit :: "jsnumber option"
  qy_sort :: "sort_spec option"

definition Exercise_find :: "exercise_filter \<Rightarrow> exercise_query" where
  "Exercise_find f = \<lparr>qy_filter = f, qy_limit = None, qy_sort = None\<rparr>"

definition limit_opt :: "jsnumber option \<Rightarrow> exercise_query \<Rightarrow> exercise_query" where
  "limit_opt l qy = qy\<lparr>qy_limit := l\<rparr>"

definition sort_opt :: "sort_spec \<Rightarrow> exercise_query \<Rightarrow> exercise_query" where
  "sort_opt s qy = qy\<lparr>qy_sort := Some s\<rparr>"

text \<open>The cast of the filter: a bound that is an Invalid Date fails it.\<close>

definition bound_ok :: "jsdate option \<Rightarrow> bool" where
  "bound_ok b = (b \<noteq> Some InvalidDate)"

definition filter_castable :: "exercise_filter \<Rightarrow> bool" where
  "filter_castable f =
     (case f_date f of None \<Rightarrow> True | Some c \<Rightarrow> bound_ok (gte c) \<and> bound_ok (lte c))"

definition ge_bound :: "jsdate option \<Rightarrow> int \<Rightarrow> bool" where
  "ge_bound b t = (case b of Some (Date lo) \<Rightarrow> lo \<le> t | _ \<Rightarrow> True)"

definition le_bound :: "jsdate option \<Rightarrow> int \<Rightarrow> bool" where
  "le_bound b t = (case b of Some (Date hi) \<Rightarrow> t \<le> hi | _ \<Rightarrow> True)"

definition matches :: "exercise_filter \<Rightarrow> exercise \<Rightarrow> bool" where
  "matches f e =
     (e_userId e = f_userId f \<and>
      (case f_date f of
         None \<Rightarrow> True
       | Some c \<Rightarrow> ge_bound (gte c) (e_date e) \<and> le_bound (lte c) (e_date e)))"

text \<open>Ascending by date. Documents of equal date keep their stored order here; the store
  itself promises no order among them.\<close>

definition apply_sort :: "sort_spec option \<Rightarrow> exercise list \<Rightarrow> exercise list" where
  "apply_sort s xs = (case s of None \<Rightarrow> xs | Some DateAscending \<Rightarrow> sort_key e_date xs)"

text \<open>
  The store's limit: no limit when the option is undefined or 0; the first \<open>n\<close> documents for
  a positive \<open>n\<close>; for a negative \<open>n\<close>, at most \<open>-n\<close> documents of the first batch only.
\<close>

definition apply_limit :: "env \<Rightarrow> int option \<Rightarrow> exercise list \<Rightarrow> exercise list" where
  "apply_limit env l xs =
     (case l of
        None \<Rightarrow> xs
      | Some n \<Rightarrow>
          if n = 0 then xs
          else if 0 < n then take (nat n) xs
          else take (min (nat (- n)) (firstBatch env)) xs)"

definition exec_find :: "env \<Rightarrow> nat \<Rightarrow> db \<Rightarrow> exercise_query \<Rightarrow> error + exercise list" where
  "exec_find env k db qy =
     (if \<not> filter_castable (qy_filter qy) then Inl CastError
      else if store_fails env k then Inl StoreError
      else
        (let found = apply_sort (qy_sort qy) (filter (matches (qy_filter qy)) (Exercises db))
         in case qy_limit qy of
              None \<Rightarrow> Inr (apply_limit env None found)
            | Some NaN \<Rightarrow>
                if nanLimitRejected env then Inl StoreError
                else Inr (apply_limit env (Some 0) found)
            | Some (Num n) \<Rightarrow> Inr (apply_limit env (Some n) found)))"

subsection \<open>Responses\<close>

record log_entry =
  l_id :: objectid
  l_description :: string
  l_duration :: int
  l_date :: string

text \<open>
  The JSON bodies the handlers send: \<open>{error}\<close>; a user document as stored; \<open>{username, _id}\<close>;
  the list of users; \<open>{_id, username, description, duration, date}\<close>;
  \<open>{_id, username, count, log}\<close>; \<open>{message, result}\<close> with the number of deleted documents,
  or \<open>{message}\<close> alone.
\<close>

datatype json_body =
    ErrorJson string
  | UserDocJson user
  | UserJson string objectid
  | UsersJson "user list"
  | ExerciseJson objectid string string int string
  | LogJson objectid string nat "log_entry list"
  | MessageJson string "nat option"

record response =
  status :: nat
  body :: json_body

text \<open>\<^verbatim>\<open>res.json(b)\<close> answers with status 200, \<^verbatim>\<open>res.status(c).json(b)\<close> with status \<open>c\<close>.\<close>

definition json :: "json_body \<Rightarrow> response" where
  "json b = \<lparr>status = 200, body = b\<rparr>"

definition status_json :: "nat \<Rightarrow> json_body \<Rightarrow> response" where
  "status_json c b = \<lparr>status = c, body = b\<rparr>"

subsection \<open>The handlers\<close>

text \<open>\<^verbatim>\<open>POST /api/users\<close>\<close>

definition post_users :: "env \<Rightarrow> db \<Rightarrow> string option \<Rightarrow> response \<times> db" where
  "post_users env db username =
     (case User_findOne env 0 db username of
        Inl err \<Rightarrow> (status_json 500 (ErrorJson ''Server error creating user''), db)
      | Inr (Some existingUser) \<Rightarrow> (json (UserDocJson existingUser), db)
      | Inr None \<Rightarrow>
          (case User_save env 1 db \<lparr>ud_id = newId env, ud_username = username\<rparr> of
             Inl err \<Rightarrow> (status_json 500 (ErrorJson ''Server error creating user''), db)
           | Inr (savedUser, db') \<Rightarrow>
               (json (UserJson (u_username savedUser) (u_id savedUser)), db')))"

text \<open>\<^verbatim>\<open>GET /api/users\<close>\<close>

definition get_users :: "env \<Rightarrow> db \<Rightarrow> response" where
  "get_users env db =
     (case User_find_all env 0 db of
        Inl err \<Rightarrow> status_json 500 (ErrorJson ''Server error retrieving users'')
      | Inr users \<Rightarrow> json (UsersJson users))"

text \<open>\<^verbatim>\<open>POST /api/users/:_id/exercises\<close>\<close>

record exercise_body =
  b_description :: "string option"
  b_duration :: "string option"
  b_date :: "string option"

text \<open>\<^verbatim>\<open>date ? new Date(date) : new Date()\<close>\<close>

definition date_or_now :: "env \<Rightarrow> string option \<Rightarrow> jsdate" where
  "date_or_now env date =
     (case date of
        None \<Rightarrow> Date (now env)
      | Some s \<Rightarrow> if s \<noteq> [] then new_Date env s else Date (now env))"

definition new_Exercise :: "env \<Rightarrow> string \<Rightarrow> exercise_body \<Rightarrow> exercise_doc" where
  "new_Exercise env userId b =
     \<lparr>ed_id = newId env,
      ed_userId = userId,
      ed_description = b_description b,
      ed_duration = parseInt (b_duration b),
      ed_date = date_or_now env (b_date b)\<rparr>"

definition post_exercises :: "env \<Rightarrow> db \<Rightarrow> string \<Rightarrow> exercise_body \<Rightarrow> response \<times> db" where
  "post_exercises env db userId b =
     (case User_findById env 0 db userId of
        Inl err \<Rightarrow> (status_json 500 (ErrorJson ''Server error adding exercise''), db)
      | Inr None \<Rightarrow> (status_json 404 (ErrorJson ''User not found''), db)
      | Inr (Some user) \<Rightarrow>
          (case Exercise_save env 1 db (new_Exercise env userId b) of
             Inl err \<Rightarrow> (status_json 500 (ErrorJson ''Server error adding exercise''), db)
           | Inr (exercise, db') \<Rightarrow>
               (json (ExerciseJson (u_id user) (u_username user) (e_description exercise)
                        (e_duration exercise) (toDateString env (e_date exercise))),
                db')))"

text \<open>\<^verbatim>\<open>GET /api/users/:_id/logs\<close>\<close>

record logs_query =
  q_from :: "string option"
  q_to :: "string option"
  q_limit :: "string option"

text \<open>\<^verbatim>\<open>if (from) filter.date.$gte = new Date(from)\<close>, and the same for \<open>to\<close>.\<close>

definition date_bound :: "env \<Rightarrow> string option \<Rightarrow> jsdate option" where
  "date_bound env v =
     (case v of
        None \<Rightarrow> None
      | Some s \<Rightarrow> if s \<noteq> [] then Some (new_Date env s) else None)"

definition build_filter :: "env \<Rightarrow> string \<Rightarrow> logs_query \<Rightarrow> exercise_filter" where
  "build_filter env ident q =
     \<lparr>f_userId = ident,
      f_date =
        (if truthy (q_from q) \<or> truthy (q_to q)
         then Some \<lparr>gte = date_bound env (q_from q), lte = date_bound env (q_to q)\<rparr>
         else None)\<rparr>"

text \<open>\<^verbatim>\<open>limit ? parseInt(limit) : undefined\<close>\<close>

definition limit_arg :: "string option \<Rightarrow> jsnumber option" where
  "limit_arg limit = (if truthy limit then Some (parseInt limit) else None)"

definition format_entry :: "env \<Rightarrow> exercise \<Rightarrow> log_entry" where
  "format_entry env exercise =
     \<lparr>l_id = e_id exercise,
      l_description = e_description exercise,
      l_duration = e_duration exercise,
      l_date = toDateString env (e_date exercise)\<rparr>"

definition get_logs :: "env \<Rightarrow> db \<Rightarrow> string \<Rightarrow> logs_query \<Rightarrow> response" where
  "get_logs env db ident q =
     (case User_findById env 0 db ident of
        Inl err \<Rightarrow> status_json 500 (ErrorJson ''Server error retrieving exercise log'')
      | Inr None \<Rightarrow> status_json 404 (ErrorJson ''User not found'')
      | Inr (Some user) \<Rightarrow>
          (case exec_find env 1 db
                  (sort_opt DateAscending
                     (limit_opt (limit_arg (q_limit q))
                        (Exercise_find (build_filter env ident q)))) of
             Inl err \<Rightarrow> status_json 500 (ErrorJson ''Server error retrieving exercise log'')
           | Inr exercises \<Rightarrow>
               (let log = map (format_entry env) exercises
                in json (LogJson (u_id user) (u_username user) (length log) log))))"

text \<open>\<^verbatim>\<open>GET /api/users/delete\<close> and \<^verbatim>\<open>GET /api/exercises/delete\<close>\<close>

definition delete_users :: "env \<Rightarrow> db \<Rightarrow> response \<times> db" where
  "delete_users env db =
     (case User_deleteMany env 0 db of
        Inl err \<Rightarrow> (json (MessageJson ''Deleting all users failed!'' None), db)
      | Inr (result, db') \<Rightarrow>
          (json (MessageJson ''All users have been deleted!'' (Some result)), db'))"

definition delete_exercises :: "env \<Rightarrow> db \<Rightarrow> response \<times> db" where
  "delete_exercises env db =
     (case Exercise_deleteMany env 0 db of
        Inl err \<Rightarrow> (json (MessageJson ''Deleting all exercises failed!'' None), db)
      | Inr (result, db') \<Rightarrow>
          (json (MessageJson ''All exercises have been deleted!'' (Some result)), db'))"

subsection \<open>Reading a response\<close>

definition response_id :: "response \<Rightarrow> objectid option" where
  "response_id r =
     (case body r of
        UserDocJson u \<Rightarrow> Some (u_id u)
      | UserJson n i \<Rightarrow> Some i
      | _ \<Rightarrow> None)"

definition log_of :: "response \<Rightarrow> log_entry list" where
  "log_of r = (case body r of LogJson i n c l \<Rightarrow> l | _ \<Rightarrow> [])"

definition count_of :: "response \<Rightarrow> nat option" where
  "count_of r = (case body r of LogJson i n c l \<Rightarrow> Some c | _ \<Rightarrow> None)"

text \<open>The inclusive range of the log filter, in the words of the specification: a bound
  that is not supplied does not restrict.\<close>

definition supplied_bound :: "env \<Rightarrow> string option \<Rightarrow> int option" where
  "supplied_bound env v =
     (case v of None \<Rightarrow> None | Some s \<Rightarrow> if s = [] then None else Date_parse env s)"

definition in_range :: "int option \<Rightarrow> int option \<Rightarrow> int \<Rightarrow> bool" where
  "in_range lo hi t =
     ((case lo of None \<Rightarrow> True | Some a \<Rightarrow> a \<le> t) \<and>
      (case hi of None \<Rightarrow> True | Some b \<Rightarrow> t \<le> b))"

subsection \<open>A sample environment and store\<close>

text \<open>
  A server in UTC on 2 January 2024, noon. The parser and the rendering are given on the
  three days the sample uses; the store answers every call.
\<close>

definition sample_parse :: "string \<Rightarrow> int option" where
  "sample_parse =
     map_of [(''2024-01-01'', 1704067200000),
             (''2024-01-02'', 1704153600000),
             (''2024-01-03'', 1704240000000)]"

definition sample_render :: "int \<Rightarrow> string" where
  "sample_render t =
     (let day = t div 86400000 in
      if day = 19723 then ''Mon Jan 01 2024''
      else if day = 19724 then ''Tue Jan 02 2024''
      else ''Wed Jan 03 2024'')"

definition env0 :: env where
  "env0 = \<lparr>now = 1704196800000, newId = 20, Date_parse = sample_parse,
           toDateString = sample_render, store_fails = (\<lambda>k. False),
           firstBatch = 101, nanLimitRejected = True\<rparr>"

definition env_down :: env where
  "env_down = env0\<lparr>store_fails := (\<lambda>k. True)\<rparr>"

definition alice_id :: string where
  "alice_id = ''000000000000000000000001''"

definition alice :: user where
  "alice = \<lparr>u_id = 1, u_username = ''alice''\<rparr>"

definition db_empty :: db where
  "db_empty = \<lparr>Users = [], Exercises = []\<rparr>"

definition db_alice :: db where
  "db_alice = \<lparr>Users = [alice], Exercises = []\<rparr>"

definition run3 :: exercise where
  "run3 = \<lparr>e_id = 11, e_userId = alice_id, e_description = ''run'', e_duration = 30,
           e_date = 1704240000000\<rparr>"

definition swim1 :: exercise where
  "swim1 = \<lparr>e_id = 12, e_userId = alice_id, e_description = ''swim'', e_duration = 45,
            e_date = 1704067200000\<rparr>"

definition walk2 :: exercise where
  "walk2 = \<lparr>e_id = 13, e_userId = alice_id, e_description = ''walk'', e_duration = 20,
            e_date = 1704153600000\<rparr>"

definition db_log :: db where
  "db_log = \<lparr>Users = [alice], Exercises = [run3, swim1, walk2]\<rparr>"

section \<open>Facts about the model\<close>

subsection \<open>Evaluation of the sample\<close>

lemmas parseInt_defs = parseInt_def parseInt_string_def parse_digits_def digits_value_def
  is_digit_def digit_of_def isWhiteSpace_def

lemmas find_defs = exec_find_def sort_opt_def limit_opt_def Exercise_find_def apply_sort_def
  apply_limit_def filter_castable_def bound_ok_def matches_def ge_bound_def le_bound_def
  build_filter_def date_bound_def new_Date_def limit_arg_def truthy_def format_entry_def
  json_def status_json_def

lemma env0_fields:
  "now env0 = 1704196800000" "newId env0 = 20" "Date_parse env0 = sample_parse"
  "toDateString env0 = sample_render" "store_fails env0 k = False"
  "firstBatch env0 = 101" "nanLimitRejected env0 = True"
  by (simp_all add: env0_def)

lemma env_down_fields:
  "now env_down = 1704196800000" "newId env_down = 20" "Date_parse env_down = sample_parse"
  "toDateString env_down = sample_render" "store_fails env_down k = True"
  by (simp_all add: env_down_def env0_def)

lemma db_fields:
  "Users db_empty = []" "Exercises db_empty = []"
  "Users db_alice = [alice]" "Exercises db_alice = []"
  "Users db_log = [alice]" "Exercises db_log = [run3, swim1, walk2]"
  by (simp_all add: db_empty_def db_alice_def db_log_def)

lemmas sample_defs = env0_fields db_fields alice_def
  run3_def swim1_def walk2_def sample_parse_def sample_render_def

lemma castObjectId_alice: "castObjectId alice_id = Some 1"
  by (simp add: castObjectId_def alice_id_def digits_value_def is_digit_def digit_of_def)

lemma castObjectId_abc: "castObjectId ''abc'' = None"
  by (simp add: castObjectId_def)

lemma findById_alice_log: "User_findById env0 0 db_log alice_id = Inr (Some alice)"
  by (simp add: User_findById_def castObjectId_alice env0_fields db_fields alice_def)

lemma findById_alice: "User_findById env0 0 db_alice alice_id = Inr (Some alice)"
  by (simp add: User_findById_def castObjectId_alice env0_fields db_fields alice_def)

text \<open>\<open>parseInt\<close> truncates at the first character that is not a digit.\<close>

lemma parseInt_examples:
  "parseInt (Some ''30'') = Num 30"
  "parseInt (Some ''30.7'') = Num 30"
  "parseInt (Some '' -12abc'') = Num (- 12)"
  "parseInt (Some ''0x1F'') = Num 31"
  "parseInt (Some ''abc'') = NaN"
  "parseInt (Some []) = NaN"
  "parseInt None = NaN"
  by (simp_all add: parseInt_defs)

subsection \<open>Identifiers and lookups\<close>

lemma castObjectId_nonempty: "castObjectId s = Some i \<Longrightarrow> s \<noteq> []"
  by (auto simp: castObjectId_def split: if_splits)

lemma findById_found_nonempty:
  "User_findById env k db ident = Inr r \<Longrightarrow> ident \<noteq> []"
  by (auto simp: User_findById_def dest: castObjectId_nonempty split: option.splits if_splits)

lemma find_append_fresh:
  "find P xs = None \<Longrightarrow> P x \<Longrightarrow> find P (xs @ [x]) = Some x"
  by (induction xs) (auto split: if_splits)

subsection \<open>A prefix of a sorted list holds its least elements\<close>

lemma sorted_take_le_drop:
  assumes "sorted (map f ys)" and "a \<in> set (take n ys)" and "b \<in> set (drop n ys)"
  shows "f a \<le> f b"
proof -
  have "sorted (map f (take n ys) @ map f (drop n ys))"
    using assms(1) by (simp flip: map_append)
  then show ?thesis
    using assms(2,3) by (auto simp: sorted_append)
qed

lemma mset_minus_take: "mset ys - mset (take n ys) = mset (drop n ys)"
proof -
  have "mset ys = mset (take n ys) + mset (drop n ys)"
    by (simp flip: mset_append)
  then show ?thesis by simp
qed

subsection \<open>The query\<close>

lemma exec_find_positive:
  assumes "filter_castable f" and "\<not> store_fails env k" and "0 < n"
  shows "exec_find env k db (sort_opt DateAscending (limit_opt (Some (Num n)) (Exercise_find f)))
         = Inr (take (nat n) (sort_key e_date (filter (matches f) (Exercises db))))"
  using assms
  by (simp add: exec_find_def sort_opt_def limit_opt_def Exercise_find_def apply_sort_def
      apply_limit_def)

lemma exec_find_unlimited:
  assumes "filter_castable f" and "\<not> store_fails env k"
  shows "exec_find env k db (sort_opt DateAscending (limit_opt None (Exercise_find f)))
         = Inr (sort_key e_date (filter (matches f) (Exercises db)))"
  using assms
  by (simp add: exec_find_def sort_opt_def limit_opt_def Exercise_find_def apply_sort_def
      apply_limit_def)

lemma exec_find_subset:
  "exec_find env k db (sort_opt DateAscending (limit_opt l (Exercise_find f))) = Inr xs
   \<Longrightarrow> set xs \<subseteq> set (filter (matches f) (Exercises db))"
  by (auto simp: exec_find_def sort_opt_def limit_opt_def Exercise_find_def apply_sort_def
      apply_limit_def Let_def split: if_splits option.splits jsnumber.splits dest: in_set_takeD)

lemma parseInt_Num_truthy: "parseInt (Some s) = Num n \<Longrightarrow> truthy (Some s)"
  by (auto simp: truthy_def parseInt_defs)

subsection \<open>Registration\<close>

lemma post_users_existing:
  assumes "\<not> store_fails env 0" and "find (\<lambda>u. u_username u = n) (Users db) = Some u"
  shows "post_users env db (Some n) = (json (UserDocJson u), db)"
  using assms by (simp add: post_users_def User_findOne_def)

lemma post_users_new:
  assumes "\<not> store_fails env 0" and "\<not> store_fails env 1"
    and "find (\<lambda>u. u_username u = n) (Users db) = None" and "n \<noteq> []"
    and "newId env \<notin> set (map u_id (Users db))"
  shows "post_users env db (Some n) =
           (json (UserJson n (newId env)),
            db\<lparr>Users := Users db @ [\<lparr>u_id = newId env, u_username = n\<rparr>]\<rparr>)"
proof -
  have "n \<notin> set (map u_username (Users db))"
    using assms(3) by (auto simp: find_None_iff)
  then show ?thesis
    using assms by (simp add: post_users_def User_findOne_def User_save_def Let_def)
qed

subsection \<open>Adding an exercise\<close>





lemma post_exercises_stored:
  assumes found: "User_findById env 0 db userId = Inr (Some user)"
    and up: "\<not> store_fails env 1"
    and fresh: "newId env \<notin> set (map e_id (Exercises db))"
    and d: "b_description b = Some d" "d \<noteq> []"
    and n: "parseInt (b_duration b) = Num n"
    and t: "date_or_now env (b_date b) = Date t"
  shows "post_exercises env db userId b =
           (json (ExerciseJson (u_id user) (u_username user) d n (toDateString env t)),
            db\<lparr>Exercises := Exercises db @
                 [\<lparr>e_id = newId env, e_userId = userId, e_description = d,
                   e_duration = n, e_date = t\<rparr>]\<rparr>)"
proof -
  have "userId \<noteq> []" using found by (rule findById_found_nonempty)
  then show ?thesis
    using assms
    by (simp add: post_exercises_def Exercise_save_def Exercise_validate_def new_Exercise_def)
qed

subsection \<open>The date range of the log filter\<close>

lemma date_bound_supplied:
  "bound_ok (date_bound env v) \<Longrightarrow>
   ge_bound (date_bound env v) t =
     (case supplied_bound env v of None \<Rightarrow> True | Some a \<Rightarrow> a \<le> t)
   \<and> le_bound (date_bound env v) t =
     (case supplied_bound env v of None \<Rightarrow> True | Some b \<Rightarrow> t \<le> b)"
  by (auto simp: bound_ok_def date_bound_def supplied_bound_def ge_bound_def le_bound_def
      new_Date_def split: option.splits)

lemma supplied_bound_falsy: "\<not> truthy v \<Longrightarrow> supplied_bound env v = None"
  by (auto simp: supplied_bound_def truthy_def split: option.splits)

lemma matches_in_range:
  assumes "filter_castable (build_filter env ident q)"
  shows "matches (build_filter env ident q) e \<longleftrightarrow>
         e_userId e = ident \<and>
         in_range (supplied_bound env (q_from q)) (supplied_bound env (q_to q)) (e_date e)"
proof (cases "truthy (q_from q) \<or> truthy (q_to q)")
  case True
  with assms have ok: "bound_ok (date_bound env (q_from q))" "bound_ok (date_bound env (q_to q))"
    by (simp_all add: filter_castable_def build_filter_def)
  show ?thesis
    using True date_bound_supplied[OF ok(1), of "e_date e"]
      date_bound_supplied[OF ok(2), of "e_date e"]
    by (simp add: matches_def build_filter_def in_range_def)
next
  case False
  then show ?thesis
    by (simp add: matches_def build_filter_def in_range_def supplied_bound_falsy)
qed

lemma get_logs_found:
  assumes "User_findById env 0 db ident = Inr (Some user)"
    and "exec_find env 1 db (sort_opt DateAscending (limit_opt (limit_arg (q_limit q))
            (Exercise_find (build_filter env ident q)))) = Inr sel"
  shows "get_logs env db ident q =
     json (LogJson (u_id user) (u_username user) (length sel) (map (format_entry env) sel))"
  using assms by (simp add: get_logs_def)

section \<open>The claims\<close>

text \<open>
  C1 (as amended). Get exercise log on an existing user, the store answering and the filter
  castable: when the \<open>limit\<close> text parses to a positive number \<open>n\<close>, the response is a 200
  whose log renders a list \<open>sel\<close> of at most \<open>n\<close> entries, \<open>min n m\<close> of the \<open>m\<close> entries
  matching the filter, ascending by date, drawn from the matching entries, and every
  matching entry left out is dated no earlier than any entry returned: the log is the \<open>n\<close>
  chronologically earliest matching entries. (A limit of \<open>0\<close> is the store's "no limit", see
  the counterexample.)
\<close>

theorem get_logs_positive_limit:
  assumes found: "User_findById env 0 db ident = Inr (Some user)"
    and up: "\<not> store_fails env 1"
    and castable: "filter_castable (build_filter env ident q)"
    and lim: "q_limit q = Some s" "parseInt (Some s) = Num n" "0 < n"
  shows "\<exists>sel.
           get_logs env db ident q =
             json (LogJson (u_id user) (u_username user) (length sel)
                     (map (format_entry env) sel))
         \<and> length sel \<le> nat n
         \<and> length sel =
             min (nat n) (length (filter (matches (build_filter env ident q)) (Exercises db)))
         \<and> sorted (map e_date sel)
         \<and> mset sel \<subseteq># mset (filter (matches (build_filter env ident q)) (Exercises db))
         \<and> (\<forall>a \<in> set sel.
              \<forall>b \<in># mset (filter (matches (build_filter env ident q)) (Exercises db))
                      - mset sel.
                e_date a \<le> e_date b)"
proof -
  let ?m = "filter (matches (build_filter env ident q)) (Exercises db)"
  let ?ys = "sort_key e_date ?m"
  let ?sel = "take (nat n) ?ys"
  have arg: "limit_arg (q_limit q) = Some (Num n)"
    using lim parseInt_Num_truthy[of s n] by (simp add: limit_arg_def)
  have resp: "get_logs env db ident q =
      json (LogJson (u_id user) (u_username user) (length ?sel) (map (format_entry env) ?sel))"
    using found exec_find_positive[OF castable up lim(3), of db]
    by (simp add: get_logs_def arg)
  have len: "length ?sel = min (nat n) (length ?m)"
    by (simp add: min.commute)
  have srt: "sorted (map e_date ?sel)"
    using sorted_wrt_take[of "(\<le>)" "map e_date ?ys" "nat n"] by (simp add: take_map)
  have "mset ?sel \<subseteq># mset ?ys"
    by (metis append_take_drop_id mset_append mset_subset_eq_add_left)
  then have sub: "mset ?sel \<subseteq># mset ?m" by simp
  have rest: "mset ?m - mset ?sel = mset (drop (nat n) ?ys)"
    using mset_minus_take[of ?ys "nat n"] by simp
  have early: "\<forall>a \<in> set ?sel. \<forall>b \<in># mset ?m - mset ?sel. e_date a \<le> e_date b"
    unfolding rest using sorted_take_le_drop[of e_date ?ys _ "nat n"] by auto
  show ?thesis
    using resp len srt sub early by (intro exI[of _ ?sel]) simp
qed

text \<open>Witness: three entries stored out of order, \<open>from = 2024-01-02\<close> and \<open>limit = 1\<close>; the
  log is the entry of 2 January alone.\<close>

theorem get_logs_positive_limit_witness:
  "User_findById env0 0 db_log alice_id = Inr (Some alice) \<and>
   \<not> store_fails env0 1 \<and>
   filter_castable (build_filter env0 alice_id
      \<lparr>q_from = Some ''2024-01-02'', q_to = None, q_limit = Some ''1''\<rparr>) \<and>
   parseInt (Some ''1'') = Num 1 \<and>
   get_logs env0 db_log alice_id
      \<lparr>q_from = Some ''2024-01-02'', q_to = None, q_limit = Some ''1''\<rparr> =
     \<lparr>status = 200,
      body = LogJson 1 ''alice'' 1
        [\<lparr>l_id = 13, l_description = ''walk'', l_duration = 20,
          l_date = ''Tue Jan 02 2024''\<rparr>]\<rparr>"
proof -
  let ?q = "\<lparr>q_from = Some ''2024-01-02'', q_to = None, q_limit = Some ''1''\<rparr>"
  let ?m = "filter (matches (build_filter env0 alice_id ?q)) (Exercises db_log)"
  have up: "\<not> store_fails env0 1" by (simp add: env0_fields)
  have c: "filter_castable (build_filter env0 alice_id ?q)"
    by (simp add: find_defs sample_defs)
  have p: "parseInt (Some ''1'') = Num 1" by (simp add: parseInt_defs)
  have m: "?m = [run3, walk2]"
    by (simp add: find_defs sample_defs)
  have l1: "q_limit ?q = Some ''1''" by simp
  have pos: "(0::int) < 1" by simp
  from get_logs_positive_limit[OF findById_alice_log up c l1 p pos]
  obtain sel where r: "get_logs env0 db_log alice_id ?q =
        json (LogJson (u_id alice) (u_username alice) (length sel)
                (map (format_entry env0) sel))"
     and l: "length sel = min (nat 1) (length ?m)"
     and s: "mset sel \<subseteq># mset ?m"
     and e: "\<forall>a \<in> set sel. \<forall>b \<in># mset ?m - mset sel. e_date a \<le> e_date b"
    by auto
  from l m obtain x where sel: "sel = [x]"
    by (cases sel) auto
  from s m sel have "x = run3 \<or> x = walk2"
    by (auto dest: mset_subset_eqD)
  moreover have "x \<noteq> run3"
  proof
    assume "x = run3"
    with e sel m have "e_date run3 \<le> e_date walk2" by simp
    then show False by (simp add: run3_def walk2_def)
  qed
  ultimately have "sel = [walk2]" using sel by simp
  with r have "get_logs env0 db_log alice_id ?q =
     \<lparr>status = 200,
      body = LogJson 1 ''alice'' 1
        [\<lparr>l_id = 13, l_description = ''walk'', l_duration = 20,
          l_date = ''Tue Jan 02 2024''\<rparr>]\<rparr>"
    by (simp add: json_def format_entry_def sample_defs)
  then show ?thesis using findById_alice_log up c p by simp
qed

text \<open>Counterexample to C1 as stated: \<open>limit = 0\<close> is a numeric limit, \<open>parseInt\<close> gives 0,
  the store reads a limit of 0 as no limit, and the log has three entries.\<close>

theorem get_logs_limit_zero_counterexample:
  "parseInt (Some ''0'') = Num 0 \<and>
   get_logs env0 db_log alice_id \<lparr>q_from = None, q_to = None, q_limit = Some ''0''\<rparr> =
     \<lparr>status = 200,
      body = LogJson 1 ''alice'' 3
        [\<lparr>l_id = 12, l_description = ''swim'', l_duration = 45,
          l_date = ''Mon Jan 01 2024''\<rparr>,
         \<lparr>l_id = 13, l_description = ''walk'', l_duration = 20,
          l_date = ''Tue Jan 02 2024''\<rparr>,
         \<lparr>l_id = 11, l_description = ''run'', l_duration = 30,
          l_date = ''Wed Jan 03 2024''\<rparr>]\<rparr> \<and>
   \<not> length (log_of (get_logs env0 db_log alice_id
                 \<lparr>q_from = None, q_to = None, q_limit = Some ''0''\<rparr>)) \<le> 0"
proof -
  have p: "parseInt (Some ''0'') = Num 0"
    by (simp add: parseInt_defs)
  have "get_logs env0 db_log alice_id \<lparr>q_from = None, q_to = None, q_limit = Some ''0''\<rparr> =
     \<lparr>status = 200,
      body = LogJson 1 ''alice'' 3
        [\<lparr>l_id = 12, l_description = ''swim'', l_duration = 45,
          l_date = ''Mon Jan 01 2024''\<rparr>,
         \<lparr>l_id = 13, l_description = ''walk'', l_duration = 20,
          l_date = ''Tue Jan 02 2024''\<rparr>,
         \<lparr>l_id = 11, l_description = ''run'', l_duration = 30,
          l_date = ''Wed Jan 03 2024''\<rparr>]\<rparr>"
    by (simp add: get_logs_def findById_alice_log find_defs p sample_defs)
  then show ?thesis using p by (simp add: log_of_def)
qed

text \<open>
  C2. Register or fetch user, twice in sequence with the same non-empty username, the store
  answering and the generated identifier unused: both responses are 200 and carry the same
  identifier, the second call leaves the store as the first left it, and when a user of
  that name already exists the first call returns that stored user and leaves the store
  unchanged.
\<close>

theorem post_users_idempotent:
  assumes up: "\<not> store_fails env1 0" "\<not> store_fails env1 1" "\<not> store_fails env2 0"
    and name: "n \<noteq> []"
    and fresh: "newId env1 \<notin> set (map u_id (Users db))"
    and first: "post_users env1 db (Some n) = (r1, db1)"
    and second: "post_users env2 db1 (Some n) = (r2, db2)"
  shows "\<exists>i. status r1 = 200 \<and> response_id r1 = Some i
            \<and> status r2 = 200 \<and> response_id r2 = Some i
            \<and> db2 = db1
            \<and> (\<forall>u. find (\<lambda>u. u_username u = n) (Users db) = Some u
                    \<longrightarrow> r1 = json (UserDocJson u) \<and> db1 = db)"
proof (cases "find (\<lambda>u. u_username u = n) (Users db)")
  case None
  from post_users_new[OF up(1,2) None name fresh] first
  have r1: "r1 = json (UserJson n (newId env1))"
    and db1: "db1 = db\<lparr>Users := Users db @ [\<lparr>u_id = newId env1, u_username = n\<rparr>]\<rparr>"
    by simp_all
  have "find (\<lambda>u. u_username u = n) (Users db1) = Some \<lparr>u_id = newId env1, u_username = n\<rparr>"
    using None by (simp add: db1 find_append_fresh)
  from post_users_existing[OF up(3) this] second
  have "r2 = json (UserDocJson \<lparr>u_id = newId env1, u_username = n\<rparr>)" and "db2 = db1"
    by simp_all
  then show ?thesis
    using r1 None by (simp add: json_def response_id_def)
next
  case (Some u)
  from post_users_existing[OF up(1) Some] first
  have r1: "r1 = json (UserDocJson u)" and db1: "db1 = db"
    by simp_all
  from post_users_existing[OF up(3), of n db u] Some second db1
  have "r2 = json (UserDocJson u)" and "db2 = db1"
    by simp_all
  then show ?thesis
    using r1 db1 Some by (simp add: json_def response_id_def)
qed

text \<open>Witness: \<open>alice\<close> registered twice on an empty store; both responses carry the
  identifier generated by the first call.\<close>

theorem post_users_idempotent_witness:
  "\<not> store_fails env0 0 \<and> \<not> store_fails env0 1 \<and> ''alice'' \<noteq> [] \<and>
   newId env0 \<notin> set (map u_id (Users db_empty)) \<and>
   post_users env0 db_empty (Some ''alice'') =
     (json (UserJson ''alice'' 20),
      \<lparr>Users = [\<lparr>u_id = 20, u_username = ''alice''\<rparr>], Exercises = []\<rparr>) \<and>
   post_users env0 \<lparr>Users = [\<lparr>u_id = 20, u_username = ''alice''\<rparr>], Exercises = []\<rparr>
      (Some ''alice'') =
     (json (UserDocJson \<lparr>u_id = 20, u_username = ''alice''\<rparr>),
      \<lparr>Users = [\<lparr>u_id = 20, u_username = ''alice''\<rparr>], Exercises = []\<rparr>) \<and>
   response_id (json (UserJson ''alice'' 20)) = Some 20 \<and>
   response_id (json (UserDocJson \<lparr>u_id = 20, u_username = ''alice''\<rparr>)) = Some 20"
proof -
  let ?db1 = "\<lparr>Users = [\<lparr>u_id = 20, u_username = ''alice''\<rparr>], Exercises = []\<rparr>"
  have up: "\<not> store_fails env0 0" "\<not> store_fails env0 1"
    by (simp_all add: env0_fields)
  have name: "''alice'' \<noteq> []" by simp
  have fresh: "newId env0 \<notin> set (map u_id (Users db_empty))"
    by (simp add: db_fields)
  have first: "post_users env0 db_empty (Some ''alice'') = (json (UserJson ''alice'' 20), ?db1)"
    by (simp add: post_users_def User_findOne_def User_save_def Let_def env0_fields db_fields
        db_empty_def)
  have second: "post_users env0 ?db1 (Some ''alice'') =
      (json (UserDocJson \<lparr>u_id = 20, u_username = ''alice''\<rparr>), ?db1)"
    by (simp add: post_users_def User_findOne_def env0_fields)
  from post_users_idempotent[OF up up(1) name fresh first second]
  obtain i where "response_id (json (UserJson ''alice'' 20)) = Some i"
    and "response_id (json (UserDocJson \<lparr>u_id = 20, u_username = ''alice''\<rparr>)) = Some i"
    by blast
  moreover have "response_id (json (UserJson ''alice'' 20)) = Some 20"
    by (simp add: response_id_def json_def)
  ultimately show ?thesis
    using up name fresh first second by simp
qed




text \<open>
  C4 (as amended). The store enforces the uniqueness of \<open>username\<close> by the unique index that
  the user schema declares: a save into a store whose usernames are distinct leaves them
  distinct, with or without a lookup before it, and a save of a username already present is
  rejected.
\<close>

theorem User_save_unique_username:
  "(distinct (map u_username (Users db)) \<and> User_save env k db doc = Inr (u, db')
      \<longrightarrow> distinct (map u_username (Users db')))
   \<and> (\<forall>n. ud_username doc = Some n \<and> n \<in> set (map u_username (Users db))
        \<longrightarrow> (\<exists>err. User_save env k db doc = Inl err))"
  by (auto simp: User_save_def Let_def split: option.splits if_splits)

text \<open>Witness: in a store holding \<open>alice\<close>, saving \<open>bob\<close> succeeds and saving a second
  \<open>alice\<close> is rejected.\<close>

theorem User_save_unique_username_witness:
  "distinct (map u_username (Users db_alice)) \<and>
   User_save env0 1 db_alice \<lparr>ud_id = 20, ud_username = Some ''bob''\<rparr> =
     Inr (\<lparr>u_id = 20, u_username = ''bob''\<rparr>,
          \<lparr>Users = [alice, \<lparr>u_id = 20, u_username = ''bob''\<rparr>], Exercises = []\<rparr>) \<and>
   distinct (map u_username [alice, \<lparr>u_id = 20, u_username = ''bob''\<rparr>]) \<and>
   ''alice'' \<in> set (map u_username (Users db_alice)) \<and>
   (\<exists>err. User_save env0 1 db_alice \<lparr>ud_id = 20, ud_username = Some ''alice''\<rparr> = Inl err)"
proof -
  let ?bob = "\<lparr>u_id = 20, u_username = ''bob''\<rparr>"
  let ?db' = "\<lparr>Users = [alice, ?bob], Exercises = []\<rparr>"
  have d: "distinct (map u_username (Users db_alice))"
    by (simp add: db_fields)
  have s: "User_save env0 1 db_alice \<lparr>ud_id = 20, ud_username = Some ''bob''\<rparr> = Inr (?bob, ?db')"
    by (simp add: User_save_def Let_def env0_fields db_fields alice_def db_alice_def)
  have a: "''alice'' \<in> set (map u_username (Users db_alice))"
    by (simp add: db_fields alice_def)
  have "distinct (map u_username (Users ?db'))"
    using User_save_unique_username[of db_alice env0 1 "\<lparr>ud_id = 20, ud_username = Some ''bob''\<rparr>" ?bob ?db'] d s
    by blast
  moreover have "\<exists>err. User_save env0 1 db_alice \<lparr>ud_id = 20, ud_username = Some ''alice''\<rparr> = Inl err"
    using User_save_unique_username[of db_alice env0 1 "\<lparr>ud_id = 20, ud_username = Some ''alice''\<rparr>"] a
    by simp
  ultimately show ?thesis using d s a by simp
qed

text \<open>Counterexample to C4 as stated: a save of a second \<open>alice\<close>, with no lookup before it,
  is rejected by the store with a duplicate-key error.\<close>

theorem User_save_duplicate_counterexample:
  "find (\<lambda>u. u_username u = ''alice'') (Users db_alice) = Some alice \<and>
   User_save env0 0 db_alice \<lparr>ud_id = 20, ud_username = Some ''alice''\<rparr> = Inl DuplicateKey"
  by (simp add: User_save_def env0_fields db_fields alice_def)

text \<open>
  C5 (as amended). For every \<open>userId\<close> that casts to an identifier of no stored user, the
  lookup being answered, add exercise and get exercise log both respond 404 "User not
  found", and add exercise leaves the store unchanged. For every \<open>userId\<close> that references
  no stored user, castable or not, add exercise creates no entry.
\<close>

theorem unknown_user_404:
  "(\<forall>oid. castObjectId userId = Some oid \<and> \<not> store_fails env 0
          \<and> oid \<notin> set (map u_id (Users db))
      \<longrightarrow> post_exercises env db userId b = (status_json 404 (ErrorJson ''User not found''), db)
        \<and> get_logs env db userId q = status_json 404 (ErrorJson ''User not found''))
   \<and> ((\<forall>u \<in> set (Users db). castObjectId userId \<noteq> Some (u_id u))
      \<longrightarrow> snd (post_exercises env db userId b) = db)"
proof -
  have none: "find (\<lambda>u. u_id u = oid) (Users db) = None"
    if "oid \<notin> set (map u_id (Users db))" for oid
    using that by (auto simp: find_None_iff)
  have a: "\<forall>oid. castObjectId userId = Some oid \<and> \<not> store_fails env 0
          \<and> oid \<notin> set (map u_id (Users db))
      \<longrightarrow> post_exercises env db userId b = (status_json 404 (ErrorJson ''User not found''), db)
        \<and> get_logs env db userId q = status_json 404 (ErrorJson ''User not found'')"
    by (auto simp: post_exercises_def get_logs_def User_findById_def none)
  have b: "snd (post_exercises env db userId b) = db"
    if "\<forall>u \<in> set (Users db). castObjectId userId \<noteq> Some (u_id u)"
  proof (cases "User_findById env 0 db userId")
    case (Inl e)
    then show ?thesis by (simp add: post_exercises_def)
  next
    case (Inr r)
    have "r = None"
    proof (cases r)
      case (Some u)
      with Inr have "u \<in> set (Users db) \<and> castObjectId userId = Some (u_id u)"
        by (auto simp: User_findById_def find_Some_iff split: option.splits if_splits)
      with that show ?thesis by blast
    qed simp
    with Inr show ?thesis by (simp add: post_exercises_def)
  qed
  show ?thesis using a b by blast
qed

text \<open>Witness: a well-formed identifier that no user has.\<close>

theorem unknown_user_404_witness:
  "castObjectId ''0000000000000000000000ff'' = Some 255 \<and> \<not> store_fails env0 0 \<and>
   255 \<notin> set (map u_id (Users db_alice)) \<and>
   post_exercises env0 db_alice ''0000000000000000000000ff''
      \<lparr>b_description = Some ''run'', b_duration = Some ''30'', b_date = None\<rparr> =
     (\<lparr>status = 404, body = ErrorJson ''User not found''\<rparr>, db_alice) \<and>
   get_logs env0 db_alice ''0000000000000000000000ff''
      \<lparr>q_from = None, q_to = None, q_limit = None\<rparr> =
     \<lparr>status = 404, body = ErrorJson ''User not found''\<rparr>"
proof -
  have c: "castObjectId ''0000000000000000000000ff'' = Some 255"
    by (simp add: castObjectId_def digits_value_def is_digit_def digit_of_def)
  have up: "\<not> store_fails env0 0" by (simp add: env0_fields)
  have n: "255 \<notin> set (map u_id (Users db_alice))" by (simp add: db_fields alice_def)
  show ?thesis
    using unknown_user_404[of "''0000000000000000000000ff''" env0 db_alice
        "\<lparr>b_description = Some ''run'', b_duration = Some ''30'', b_date = None\<rparr>"
        "\<lparr>q_from = None, q_to = None, q_limit = None\<rparr>"] c up n
    by (simp add: status_json_def)
qed

text \<open>Counterexample to C5 as stated: the \<open>userId\<close> \<open>abc\<close> references no user, its cast to
  an identifier fails inside the lookup, and both operations respond 500.\<close>

theorem malformed_id_500_counterexample:
  "castObjectId ''abc'' = None \<and>
   post_exercises env0 db_alice ''abc''
      \<lparr>b_description = Some ''run'', b_duration = Some ''30'', b_date = None\<rparr> =
     (\<lparr>status = 500, body = ErrorJson ''Server error adding exercise''\<rparr>, db_alice) \<and>
   get_logs env0 db_alice ''abc'' \<lparr>q_from = None, q_to = None, q_limit = None\<rparr> =
     \<lparr>status = 500, body = ErrorJson ''Server error retrieving exercise log''\<rparr>"
  by (simp add: post_exercises_def get_logs_def User_findById_def castObjectId_abc
      status_json_def)

text \<open>
  C6. Get exercise log on an existing user, with \<open>from\<close> and \<open>to\<close> that parse where
  supplied, in a successful response: every entry of the log is an entry of the user dated
  within the inclusive range (\<open>from \<le> date \<le> to\<close>, on time values), and when no limit cuts
  the result the log holds exactly the user's entries within the range, those dated exactly
  \<open>from\<close> or \<open>to\<close> included.
\<close>

theorem get_logs_date_range:
  assumes found: "User_findById env 0 db ident = Inr (Some user)"
    and castable: "filter_castable (build_filter env ident q)"
    and ok: "status (get_logs env db ident q) = 200"
  shows "\<exists>sel.
           get_logs env db ident q =
             json (LogJson (u_id user) (u_username user) (length sel)
                     (map (format_entry env) sel))
         \<and> (\<forall>e \<in> set sel. e \<in> set (Exercises db) \<and> e_userId e = ident
              \<and> in_range (supplied_bound env (q_from q)) (supplied_bound env (q_to q))
                   (e_date e))
         \<and> (\<not> truthy (q_limit q) \<longrightarrow>
              mset sel =
                filter_mset
                  (\<lambda>e. e_userId e = ident
                     \<and> in_range (supplied_bound env (q_from q)) (supplied_bound env (q_to q))
                          (e_date e))
                  (mset (Exercises db)))"
proof -
  let ?qy = "sort_opt DateAscending (limit_opt (limit_arg (q_limit q))
               (Exercise_find (build_filter env ident q)))"
  let ?P = "\<lambda>e. e_userId e = ident
              \<and> in_range (supplied_bound env (q_from q)) (supplied_bound env (q_to q)) (e_date e)"
  have P: "matches (build_filter env ident q) = ?P"
    using matches_in_range[OF castable] by auto
  obtain sel where sel: "exec_find env 1 db ?qy = Inr sel"
    using found ok
    by (cases "exec_find env 1 db ?qy") (simp_all add: get_logs_def status_json_def)
  have up: "\<not> store_fails env 1"
    using sel castable by (auto simp: exec_find_def split: if_splits)
  have resp: "get_logs env db ident q =
      json (LogJson (u_id user) (u_username user) (length sel) (map (format_entry env) sel))"
    using get_logs_found[OF found sel] .
  have sub: "\<forall>e \<in> set sel. e \<in> set (Exercises db) \<and> ?P e"
    using exec_find_subset[OF sel] by (auto simp: P)
  have all: "mset sel = filter_mset ?P (mset (Exercises db))" if "\<not> truthy (q_limit q)"
  proof -
    have "limit_arg (q_limit q) = None" using that by (simp add: limit_arg_def)
    with sel exec_find_unlimited[OF castable up, of db]
    have "sel = sort_key e_date (filter ?P (Exercises db))"
      by (simp add: P)
    then show ?thesis by simp
  qed
  show ?thesis using resp sub all by blast
qed

text \<open>Witness: entries on 1, 2 and 3 January, \<open>from = 2024-01-01\<close>, \<open>to = 2024-01-02\<close>: the
  entries dated exactly on the two bounds are returned, the third is not.\<close>

theorem get_logs_date_range_witness:
  "User_findById env0 0 db_log alice_id = Inr (Some alice) \<and>
   filter_castable (build_filter env0 alice_id
      \<lparr>q_from = Some ''2024-01-01'', q_to = Some ''2024-01-02'', q_limit = None\<rparr>) \<and>
   supplied_bound env0 (Some ''2024-01-01'') = Some 1704067200000 \<and>
   supplied_bound env0 (Some ''2024-01-02'') = Some 1704153600000 \<and>
   get_logs env0 db_log alice_id
      \<lparr>q_from = Some ''2024-01-01'', q_to = Some ''2024-01-02'', q_limit = None\<rparr> =
     \<lparr>status = 200,
      body = LogJson 1 ''alice'' 2
        [\<lparr>l_id = 12, l_description = ''swim'', l_duration = 45,
          l_date = ''Mon Jan 01 2024''\<rparr>,
         \<lparr>l_id = 13, l_description = ''walk'', l_duration = 20,
          l_date = ''Tue Jan 02 2024''\<rparr>]\<rparr> \<and>
   (\<exists>sel. log_of (get_logs env0 db_log alice_id
              \<lparr>q_from = Some ''2024-01-01'', q_to = Some ''2024-01-02'', q_limit = None\<rparr>) =
            map (format_entry env0) sel \<and>
          mset sel = {#swim1, walk2#})"
proof -
  let ?q = "\<lparr>q_from = Some ''2024-01-01'', q_to = Some ''2024-01-02'', q_limit = None\<rparr>"
  have c: "filter_castable (build_filter env0 alice_id ?q)"
    by (simp add: find_defs sample_defs)
  have lo: "supplied_bound env0 (Some ''2024-01-01'') = Some 1704067200000"
    and hi: "supplied_bound env0 (Some ''2024-01-02'') = Some 1704153600000"
    by (simp_all add: supplied_bound_def env0_fields sample_parse_def)
  have r: "get_logs env0 db_log alice_id ?q =
     \<lparr>status = 200,
      body = LogJson 1 ''alice'' 2
        [\<lparr>l_id = 12, l_description = ''swim'', l_duration = 45,
          l_date = ''Mon Jan 01 2024''\<rparr>,
         \<lparr>l_id = 13, l_description = ''walk'', l_duration = 20,
          l_date = ''Tue Jan 02 2024''\<rparr>]\<rparr>"
    by (simp add: get_logs_def findById_alice_log find_defs sample_defs)
  then have ok: "status (get_logs env0 db_log alice_id ?q) = 200" by simp
  from get_logs_date_range[OF findById_alice_log c ok]
  obtain sel where s: "get_logs env0 db_log alice_id ?q =
             json (LogJson (u_id alice) (u_username alice) (length sel)
                     (map (format_entry env0) sel))"
    and m: "mset sel =
                filter_mset
                  (\<lambda>e. e_userId e = alice_id
                     \<and> in_range (supplied_bound env0 (q_from ?q)) (supplied_bound env0 (q_to ?q))
                          (e_date e))
                  (mset (Exercises db_log))"
    by (auto simp: truthy_def)
  have "mset sel = {#swim1, walk2#}"
    unfolding m using lo hi
    by (simp add: db_fields in_range_def run3_def swim1_def walk2_def)
  moreover have "log_of (get_logs env0 db_log alice_id ?q) = map (format_entry env0) sel"
    unfolding s by (simp add: log_of_def json_def)
  ultimately show ?thesis
    using findById_alice_log c lo hi r by blast
qed

text \<open>
  C7. In every successful response of get exercise log, whatever \<open>from\<close>, \<open>to\<close> and \<open>limit\<close>,
  the \<open>count\<close> field is the number of elements of \<open>log\<close>.
\<close>

theorem get_logs_count:
  "status (get_logs env db ident q) = 200 \<Longrightarrow>
   \<exists>i n l. body (get_logs env db ident q) = LogJson i n (length l) l
          \<and> count_of (get_logs env db ident q) = Some (length (log_of (get_logs env db ident q)))"
  by (auto simp: get_logs_def json_def status_json_def count_of_def log_of_def
      split: sum.splits option.splits)

text \<open>Witness: a query with \<open>from\<close> and \<open>limit\<close>; count and length are both 2.\<close>

theorem get_logs_count_witness:
  "status (get_logs env0 db_log alice_id
      \<lparr>q_from = Some ''2024-01-02'', q_to = None, q_limit = Some ''5''\<rparr>) = 200 \<and>
   count_of (get_logs env0 db_log alice_id
      \<lparr>q_from = Some ''2024-01-02'', q_to = None, q_limit = Some ''5''\<rparr>) = Some 2 \<and>
   length (log_of (get_logs env0 db_log alice_id
      \<lparr>q_from = Some ''2024-01-02'', q_to = None, q_limit = Some ''5''\<rparr>)) = 2"
proof -
  let ?q = "\<lparr>q_from = Some ''2024-01-02'', q_to = None, q_limit = Some ''5''\<rparr>"
  have p: "parseInt (Some ''5'') = Num 5" by (simp add: parseInt_defs)
  have r: "get_logs env0 db_log alice_id ?q =
     \<lparr>status = 200,
      body = LogJson 1 ''alice'' 2
        [\<lparr>l_id = 13, l_description = ''walk'', l_duration = 20,
          l_date = ''Tue Jan 02 2024''\<rparr>,
         \<lparr>l_id = 11, l_description = ''run'', l_duration = 30,
          l_date = ''Wed Jan 03 2024''\<rparr>]\<rparr>"
    by (simp add: get_logs_def findById_alice_log find_defs p sample_defs)
  then have ok: "status (get_logs env0 db_log alice_id ?q) = 200" by simp
  have l: "length (log_of (get_logs env0 db_log alice_id ?q)) = 2"
    unfolding r by (simp add: log_of_def)
  from get_logs_count[OF ok] have
    "count_of (get_logs env0 db_log alice_id ?q) = Some (length (log_of (get_logs env0 db_log alice_id ?q)))"
    by blast
  with l ok show ?thesis by simp
qed

text \<open>
  C8. When the store rejects the bulk delete, delete all users and delete all exercises
  respond with status 200 and the failure message; both operations respond 200 in every
  case.
\<close>

theorem bulk_delete_failure_200:
  "(store_fails env 0 \<longrightarrow>
      delete_users env db =
        (\<lparr>status = 200, body = MessageJson ''Deleting all users failed!'' None\<rparr>, db)
    \<and> delete_exercises env db =
        (\<lparr>status = 200, body = MessageJson ''Deleting all exercises failed!'' None\<rparr>, db))
   \<and> status (fst (delete_users env db)) = 200
   \<and> status (fst (delete_exercises env db)) = 200"
  by (simp add: delete_users_def delete_exercises_def User_deleteMany_def
      Exercise_deleteMany_def json_def)

text \<open>Witness: a store that rejects every call.\<close>

theorem bulk_delete_failure_200_witness:
  "store_fails env_down 0 \<and>
   delete_users env_down db_log =
     (\<lparr>status = 200, body = MessageJson ''Deleting all users failed!'' None\<rparr>, db_log) \<and>
   delete_exercises env_down db_log =
     (\<lparr>status = 200, body = MessageJson ''Deleting all exercises failed!'' None\<rparr>, db_log)"
  using bulk_delete_failure_200[of env_down db_log]
  by (simp add: env_down_fields)

text \<open>
  C9. Add exercise with a \<open>date\<close> field that is the empty string behaves as with no \<open>date\<close>
  field: same response, same store. The date of the constructed entry is the current time,
  and when the response is 200 the entry stored and the date rendered are of the current
  time.
\<close>

theorem post_exercises_empty_date:
  "post_exercises env db userId (b\<lparr>b_date := Some []\<rparr>) =
     post_exercises env db userId (b\<lparr>b_date := None\<rparr>)
   \<and> ed_date (new_Exercise env userId (b\<lparr>b_date := Some []\<rparr>)) = Date (now env)
   \<and> (\<forall>r db'. post_exercises env db userId (b\<lparr>b_date := Some []\<rparr>) = (r, db')
          \<and> status r = 200
        \<longrightarrow> (\<exists>e i n d m. Exercises db' = Exercises db @ [e] \<and> e_date e = now env
                \<and> body r = ExerciseJson i n d m (toDateString env (now env))))"
proof -
  have eq: "new_Exercise env userId (b\<lparr>b_date := Some []\<rparr>) =
            new_Exercise env userId (b\<lparr>b_date := None\<rparr>)"
    by (simp add: new_Exercise_def date_or_now_def)
  have 1: "post_exercises env db userId (b\<lparr>b_date := Some []\<rparr>) =
           post_exercises env db userId (b\<lparr>b_date := None\<rparr>)"
    by (simp only: post_exercises_def eq)
  have 2: "ed_date (new_Exercise env userId (b\<lparr>b_date := Some []\<rparr>)) = Date (now env)"
    by (simp add: new_Exercise_def date_or_now_def)
  have 3: "\<exists>e i n d m. Exercises db' = Exercises db @ [e] \<and> e_date e = now env
                \<and> body r = ExerciseJson i n d m (toDateString env (now env))"
    if "post_exercises env db userId (b\<lparr>b_date := Some []\<rparr>) = (r, db')" "status r = 200"
    for r db'
    using that 2
    by (auto simp: post_exercises_def Exercise_save_def Exercise_validate_def json_def
        status_json_def split: sum.splits option.splits jsnumber.splits jsdate.splits
        if_splits)
  show ?thesis using 1 2 3 by blast
qed

text \<open>Witness: the same exercise added with \<open>date\<close> empty and with \<open>date\<close> absent, at noon
  of 2 January.\<close>

theorem post_exercises_empty_date_witness:
  "post_exercises env0 db_alice alice_id
     \<lparr>b_description = Some ''run'', b_duration = Some ''30'', b_date = Some []\<rparr> =
     (\<lparr>status = 200, body = ExerciseJson 1 ''alice'' ''run'' 30 ''Tue Jan 02 2024''\<rparr>,
      \<lparr>Users = [alice],
       Exercises = [\<lparr>e_id = 20, e_userId = alice_id, e_description = ''run'',
                     e_duration = 30, e_date = 1704196800000\<rparr>]\<rparr>) \<and>
   post_exercises env0 db_alice alice_id
     \<lparr>b_description = Some ''run'', b_duration = Some ''30'', b_date = None\<rparr> =
     (\<lparr>status = 200, body = ExerciseJson 1 ''alice'' ''run'' 30 ''Tue Jan 02 2024''\<rparr>,
      \<lparr>Users = [alice],
       Exercises = [\<lparr>e_id = 20, e_userId = alice_id, e_description = ''run'',
                     e_duration = 30, e_date = 1704196800000\<rparr>]\<rparr>) \<and>
   now env0 = 1704196800000"
proof -
  let ?b = "\<lparr>b_description = Some ''run'', b_duration = Some ''30'', b_date = Some ''x''\<rparr>"
  have p: "parseInt (Some ''30'') = Num 30" by (simp add: parseInt_defs)
  have up: "\<not> store_fails env0 1" by (simp add: env0_fields)
  have fresh: "newId env0 \<notin> set (map e_id (Exercises db_alice))"
    by (simp add: db_fields)
  have t: "date_or_now env0 (b_date (?b\<lparr>b_date := None\<rparr>)) = Date 1704196800000"
    by (simp add: date_or_now_def env0_fields)
  have "post_exercises env0 db_alice alice_id (?b\<lparr>b_date := None\<rparr>) =
      (json (ExerciseJson (u_id alice) (u_username alice) ''run'' 30
               (toDateString env0 1704196800000)),
       db_alice\<lparr>Exercises := Exercises db_alice @
            [\<lparr>e_id = newId env0, e_userId = alice_id, e_description = ''run'',
              e_duration = 30, e_date = 1704196800000\<rparr>]\<rparr>)"
    using post_exercises_stored[OF findById_alice up fresh _ _ _ t, of "''run''" 30] p
    by simp
  then have none: "post_exercises env0 db_alice alice_id (?b\<lparr>b_date := None\<rparr>) =
     (\<lparr>status = 200, body = ExerciseJson 1 ''alice'' ''run'' 30 ''Tue Jan 02 2024''\<rparr>,
      \<lparr>Users = [alice],
       Exercises = [\<lparr>e_id = 20, e_userId = alice_id, e_description = ''run'',
                     e_duration = 30, e_date = 1704196800000\<rparr>]\<rparr>)"
    by (simp add: json_def env0_fields db_fields db_alice_def alice_def sample_render_def)
  from post_exercises_empty_date[of env0 db_alice alice_id ?b]
  have "post_exercises env0 db_alice alice_id (?b\<lparr>b_date := Some []\<rparr>) =
        post_exercises env0 db_alice alice_id (?b\<lparr>b_date := None\<rparr>)"
    by blast
  with none show ?thesis by (simp add: env0_fields)
qed

text \<open>
  C10. Delete all users leaves the exercises unchanged, and delete all exercises leaves the
  users unchanged.
\<close>

theorem bulk_delete_frame:
  "Exercises (snd (delete_users env db)) = Exercises db
   \<and> Users (snd (delete_exercises env db)) = Users db"
  by (simp add: delete_users_def delete_exercises_def User_deleteMany_def
      Exercise_deleteMany_def)

text \<open>Witness: on the sample store, each bulk delete empties its own collection only.\<close>

theorem bulk_delete_frame_witness:
  "delete_users env0 db_log =
     (\<lparr>status = 200, body = MessageJson ''All users have been deleted!'' (Some 1)\<rparr>,
      \<lparr>Users = [], Exercises = [run3, swim1, walk2]\<rparr>) \<and>
   delete_exercises env0 db_log =
     (\<lparr>status = 200, body = MessageJson ''All exercises have been deleted!'' (Some 3)\<rparr>,
      \<lparr>Users = [alice], Exercises = []\<rparr>) \<and>
   Exercises (snd (delete_users env0 db_log)) = Exercises db_log \<and>
   Users (snd (delete_exercises env0 db_log)) = Users db_log"
proof -
  have u: "delete_users env0 db_log =
     (\<lparr>status = 200, body = MessageJson ''All users have been deleted!'' (Some 1)\<rparr>,
      \<lparr>Users = [], Exercises = [run3, swim1, walk2]\<rparr>)"
    by (simp add: delete_users_def User_deleteMany_def json_def env0_fields db_fields
        db_log_def)
  have e: "delete_exercises env0 db_log =
     (\<lparr>status = 200, body = MessageJson ''All exercises have been deleted!'' (Some 3)\<rparr>,
      \<lparr>Users = [alice], Exercises = []\<rparr>)"
    by (simp add: delete_exercises_def Exercise_deleteMany_def json_def env0_fields db_fields
        db_log_def)
  show ?thesis
    using bulk_delete_frame[of env0 db_log] u e by simp
qed

end
